theory Spec2Isabelle
  imports Main "HOL-Library.AList" "HOL-Library.Char_ord" "HOL-Library.List_Lexorder"
begin

section \<open>Python values, errors and containers\<close>

text \<open>
  The lazy member list of litecord (\<^verbatim>\<open>litecord/pubsub/lazy_guild.py\<close>) works on
  dictionaries of untyped values. A Python value is a \<open>pyval\<close>; a dictionary is an
  association list in insertion order with distinct keys (\<open>map_of\<close> reads it,
  \<open>AList.update\<close> is \<^verbatim>\<open>d[k] = v\<close>: it replaces in place or appends, as Python does,
  \<open>AList.delete\<close> is \<^verbatim>\<open>pop\<close>/\<^verbatim>\<open>del\<close>). Strings are byte strings.
  Every exception the source can raise is a value of \<open>error\<close>; a computation that can
  raise returns an \<open>outcome\<close>, and a method that also mutates the object returns the
  outcome together with the object as it is at that moment (mutations made before a
  raise persist, as in Python).
\<close>

datatype error = KeyError | TypeError | ValueError | IndexError

datatype 'a outcome = Return 'a | Raise error

datatype pyval =
    PNone
  | PInt int
  | PStr string
  | PList "pyval list"
  | PDict "(string \<times> pyval) list"

type_synonym Presence = "(string \<times> pyval) list"

definition obind :: "'a outcome \<Rightarrow> ('a \<Rightarrow> 'b outcome) \<Rightarrow> 'b outcome" where
  "obind m f = (case m of Raise e \<Rightarrow> Raise e | Return x \<Rightarrow> f x)"

definition sbind :: "'a outcome \<times> 's \<Rightarrow> ('a \<Rightarrow> 's \<Rightarrow> 'b outcome \<times> 's) \<Rightarrow> 'b outcome \<times> 's" where
  "sbind m f = (case m of (Raise e, s) \<Rightarrow> (Raise e, s) | (Return x, s) \<Rightarrow> f x s)"

fun omap :: "('a \<Rightarrow> 'b outcome) \<Rightarrow> 'a list \<Rightarrow> 'b list outcome" where
  "omap f [] = Return []"
| "omap f (x # xs) = obind (f x) (\<lambda>y. obind (omap f xs) (\<lambda>ys. Return (y # ys)))"

text \<open>\<^verbatim>\<open>d[k]\<close> on a dictionary: KeyError when the key is missing.\<close>

definition dict_get :: "('k \<times> 'v) list \<Rightarrow> 'k \<Rightarrow> 'v outcome" where
  "dict_get d k = (case map_of d k of None \<Rightarrow> Raise KeyError | Some v \<Rightarrow> Return v)"

text \<open>\<^verbatim>\<open>v[k]\<close> with a string key on any value: only a dictionary can be subscripted so.\<close>

fun py_getitem :: "pyval \<Rightarrow> string \<Rightarrow> pyval outcome" where
  "py_getitem (PDict d) k = dict_get d k"
| "py_getitem PNone k = Raise TypeError"
| "py_getitem (PInt i) k = Raise TypeError"
| "py_getitem (PStr s) k = Raise TypeError"
| "py_getitem (PList vs) k = Raise TypeError"

fun truthy :: "pyval \<Rightarrow> bool" where
  "truthy PNone = False"
| "truthy (PInt i) = (i \<noteq> 0)"
| "truthy (PStr s) = (s \<noteq> [])"
| "truthy (PList vs) = (vs \<noteq> [])"
| "truthy (PDict d) = (d \<noteq> [])"

text \<open>\<^verbatim>\<open>xs[start:end]\<close>: a negative bound counts from the end, both are clamped.\<close>

definition slice_bound :: "nat \<Rightarrow> int \<Rightarrow> nat" where
  "slice_bound n i = (if i < 0 then nat (max (i + int n) 0) else min (nat i) n)"

definition py_slice :: "'a list \<Rightarrow> int \<Rightarrow> int \<Rightarrow> 'a list" where
  "py_slice xs start stop =
     (let a = slice_bound (length xs) start; b = slice_bound (length xs) stop
      in take (b - a) (drop a xs))"

text \<open>\<^verbatim>\<open>xs[i]\<close> where \<^verbatim>\<open>i\<close> is an int or None.\<close>

definition py_index :: "'a list \<Rightarrow> int option \<Rightarrow> 'a outcome" where
  "py_index xs i =
     (case i of
        None \<Rightarrow> Raise TypeError
      | Some k \<Rightarrow>
          (let j = (if k < 0 then k + int (length xs) else k)
           in if 0 \<le> j \<and> j < int (length xs) then Return (xs ! nat j) else Raise IndexError))"

text \<open>\<^verbatim>\<open>xs.insert(i, x)\<close>: the index is clamped like a slice bound.\<close>

definition py_insert :: "'a list \<Rightarrow> int \<Rightarrow> 'a \<Rightarrow> 'a list" where
  "py_insert xs i x = (let j = slice_bound (length xs) i in take j xs @ [x] @ drop j xs)"

text \<open>\<^verbatim>\<open>xs.index(x)\<close>, with None for ValueError.\<close>

fun index_of :: "'a list \<Rightarrow> 'a \<Rightarrow> nat option" where
  "index_of [] x = None"
| "index_of (y # ys) x =
     (if y = x then Some 0 else (case index_of ys x of None \<Rightarrow> None | Some i \<Rightarrow> Some (Suc i)))"

text \<open>\<^verbatim>\<open>str(n)\<close> of an int: its decimal digits.\<close>

definition digit_char :: "nat \<Rightarrow> char" where
  "digit_char d = ''0123456789'' ! d"

function string_of_nat :: "nat \<Rightarrow> string" where
  "string_of_nat n =
     (if n < 10 then [digit_char n] else string_of_nat (n div 10) @ [digit_char (n mod 10)])"
  by pat_completeness auto
termination
  by (relation "measure id") auto

declare string_of_nat.simps [simp del]

definition string_of_int :: "int \<Rightarrow> string" where
  "string_of_int i = (if i < 0 then CHR ''-'' # string_of_nat (nat (- i)) else string_of_nat (nat i))"

section \<open>The data model\<close>

text \<open>
  \<^verbatim>\<open>GroupID = Union[int, str]\<close>: a role id, or one of the tags \<^verbatim>\<open>'online'\<close> and
  \<^verbatim>\<open>'offline'\<close>. Python's \<^verbatim>\<open>==\<close> between an int and a str is False, as the
  constructors' equality is.
\<close>

datatype GroupID = GInt int | GStr string

fun str_gid :: "GroupID \<Rightarrow> string" where
  "str_gid (GInt i) = string_of_int i"
| "str_gid (GStr s) = s"

fun gid_truthy :: "GroupID \<Rightarrow> bool" where
  "gid_truthy (GInt i) = (i \<noteq> 0)"
| "gid_truthy (GStr s) = (s \<noteq> [])"

definition MAX_ROLES :: int where
  "MAX_ROLES = 250"

record GroupInfo =
  gid :: GroupID
  name :: string
  position :: int
  permissions :: int

record MemberList =
  groups :: "GroupInfo list"
  data :: "(GroupID \<times> int list) list"
  presences :: "(int \<times> Presence) list"
  members :: "(int \<times> pyval) list"
  overwrites :: "(int \<times> pyval) list"

text \<open>
  \<^verbatim>\<open>MemberList.__bool__\<close>: the list is initialized when groups, data, presences
  and members are all non-empty; overwrites are ignored.
\<close>

definition MemberList_bool :: "MemberList \<Rightarrow> bool" where
  "MemberList_bool l = (groups l \<noteq> [] \<and> data l \<noteq> [] \<and> presences l \<noteq> [] \<and> members l \<noteq> [])"

text \<open>
  \<^verbatim>\<open>GuildMemberList\<close>. \<open>state\<close> is the \<^verbatim>\<open>defaultdict(set)\<close> of subscribed ranges per
  session id; a set of ranges is a duplicate-free list. The last
  three fields are the traces of the object's effects on the outside: the payloads
  handed to \<^verbatim>\<open>state.ws.dispatch\<close>, the \<^verbatim>\<open>shard_query\<close> calls handed to
  \<^verbatim>\<open>loop.create_task\<close>, and the \<^verbatim>\<open>shard_query\<close> calls made on the guild's
  \<^verbatim>\<open>everyone\<close> list.
\<close>

record GuildMemberList =
  guild_id :: int
  channel_id :: int
  lst :: MemberList
  state :: "(string \<times> (int \<times> int) list) list"
  dispatched :: "(string \<times> string \<times> pyval) list"
  tasks :: "(string \<times> (int \<times> int) list) list"
  forwarded :: "(string \<times> (int \<times> int) list) list"

text \<open>
  The collaborators the module calls but does not define (storage, presence manager,
  permissions, state manager) are parameters: the answers they give during one call.
  \<open>everyone_shard_query\<close> is the outcome of \<^verbatim>\<open>everyone_gml.shard_query\<close>, a call on
  another list of the dispatcher. \<open>int_of_str\<close> is Python's \<^verbatim>\<open>int()\<close> on a string
  (None for ValueError) and \<open>str_of_container\<close> is \<^verbatim>\<open>str()\<close> on a list or dict.
\<close>

record role_row =
  role_id :: int
  role_name :: string
  role_hoist :: bool
  role_position :: int
  role_permissions :: int

record env =
  everyone_read :: bool
  everyone_shard_query :: "string \<Rightarrow> (int \<times> int) list \<Rightarrow> unit outcome"
  member_read :: "int \<Rightarrow> bool"
  chan_overwrites :: "(int \<times> pyval) list"
  overwrite_find_mix :: "int \<Rightarrow> (int \<times> pyval) list \<Rightarrow> GroupID \<Rightarrow> int"
  read_messages :: "int \<Rightarrow> bool"
  session_known :: "string \<Rightarrow> bool"
  storage_member_ids :: "int list"
  guild_presences :: "Presence list"
  storage_roles :: "role_row list"
  member_data_one :: "int \<Rightarrow> pyval"
  int_of_str :: "string \<Rightarrow> int option"
  str_of_container :: "pyval \<Rightarrow> string"

fun py_str :: "env \<Rightarrow> pyval \<Rightarrow> string" where
  "py_str E PNone = ''None''"
| "py_str E (PInt i) = string_of_int i"
| "py_str E (PStr s) = s"
| "py_str E (PList vs) = str_of_container E (PList vs)"
| "py_str E (PDict d) = str_of_container E (PDict d)"

fun py_int :: "env \<Rightarrow> pyval \<Rightarrow> int outcome" where
  "py_int E (PInt i) = Return i"
| "py_int E (PStr s) = (case int_of_str E s of None \<Rightarrow> Raise ValueError | Some i \<Rightarrow> Return i)"
| "py_int E PNone = Raise TypeError"
| "py_int E (PList vs) = Raise TypeError"
| "py_int E (PDict d) = Raise TypeError"

section \<open>The flattened item sequence\<close>

text \<open>
  \<^verbatim>\<open>merge(member, presence)\<close>: the member dictionary with a compact presence under
  the key \<^verbatim>\<open>'presence'\<close>.
\<close>

definition merge :: "env \<Rightarrow> pyval \<Rightarrow> Presence \<Rightarrow> pyval outcome" where
  "merge E member presence =
     (case member of
        PDict m \<Rightarrow>
          obind (py_getitem member ''user'') (\<lambda>u.
          obind (py_getitem u ''id'') (\<lambda>i.
          obind (dict_get presence ''status'') (\<lambda>st.
          obind (dict_get presence ''game'') (\<lambda>gm.
          obind (dict_get presence ''activities'') (\<lambda>ac.
            Return (PDict (AList.update ''presence''
              (PDict [(''user'', PDict [(''id'', PStr (py_str E i))]),
                      (''status'', st), (''game'', gm), (''activities'', ac)]) m)))))))
      | PNone \<Rightarrow> Raise TypeError
      | PInt i \<Rightarrow> Raise TypeError
      | PStr s \<Rightarrow> Raise TypeError
      | PList vs \<Rightarrow> Raise TypeError)"

definition get_member_as_item :: "env \<Rightarrow> MemberList \<Rightarrow> int \<Rightarrow> pyval outcome" where
  "get_member_as_item E l member_id =
     obind (dict_get (members l) member_id) (\<lambda>member.
     obind (dict_get (presences l) member_id) (\<lambda>presence.
       merge E member presence))"

definition group_item :: "GroupInfo \<Rightarrow> int list \<Rightarrow> pyval" where
  "group_item g member_ids =
     PDict [(''group'', PDict [(''id'', PStr (str_gid (gid g))),
                              (''count'', PInt (int (length member_ids)))])]"

text \<open>
  The loop of the \<^verbatim>\<open>items\<close> property over \<^verbatim>\<open>MemberList.__iter__\<close>: each group
  is looked up in \<open>data\<close> when the iteration reaches it; a group with no member is
  skipped, whatever its id.
\<close>

fun items_loop :: "env \<Rightarrow> MemberList \<Rightarrow> GroupInfo list \<Rightarrow> pyval list outcome" where
  "items_loop E l [] = Return []"
| "items_loop E l (g # gs) =
     obind (dict_get (data l) (gid g)) (\<lambda>member_ids.
       if member_ids = [] then items_loop E l gs
       else
         obind (omap (\<lambda>member_id.
                  obind (get_member_as_item E l member_id) (\<lambda>it. Return (PDict [(''member'', it)])))
                member_ids) (\<lambda>ms.
         obind (items_loop E l gs) (\<lambda>rest.
           Return (group_item g member_ids # ms @ rest))))"

definition items :: "env \<Rightarrow> GuildMemberList \<Rightarrow> pyval list outcome" where
  "items E g = (if \<not> MemberList_bool (lst g) then Return [] else items_loop E (lst g) (groups (lst g)))"

section \<open>Iteration over non-empty groups and item indices\<close>

definition is_offline :: "GroupInfo \<Rightarrow> bool" where
  "is_offline g = (gid g = GStr ''offline'')"

text \<open>
  \<^verbatim>\<open>groups_complete\<close> (over \<^verbatim>\<open>iter_non_empty\<close>), consumed to the end: the groups
  with a member, and always \<^verbatim>\<open>'offline'\<close>, each with its member count.
\<close>

fun groups_complete :: "MemberList \<Rightarrow> GroupInfo list \<Rightarrow> (GroupInfo \<times> nat) list outcome" where
  "groups_complete l [] = Return []"
| "groups_complete l (g # gs) =
     obind (dict_get (data l) (gid g)) (\<lambda>member_ids.
       if is_offline g then obind (groups_complete l gs) (\<lambda>r. Return ((g, length member_ids) # r))
       else if member_ids = [] then groups_complete l gs
       else obind (groups_complete l gs) (\<lambda>r. Return ((g, length member_ids) # r)))"

text \<open>
  \<^verbatim>\<open>get_item_index\<close>: the loop over \<^verbatim>\<open>iter_non_empty\<close> with the running
  \<^verbatim>\<open>index\<close>, which starts at 1.
\<close>

fun item_index_loop :: "MemberList \<Rightarrow> int \<Rightarrow> GroupInfo list \<Rightarrow> int \<Rightarrow> int option outcome" where
  "item_index_loop l user_id [] idx = Return None"
| "item_index_loop l user_id (g # gs) idx =
     obind (dict_get (data l) (gid g)) (\<lambda>member_ids.
       if \<not> is_offline g \<and> member_ids = [] then item_index_loop l user_id gs idx
       else
         (case index_of member_ids user_id of
            Some relative_index \<Rightarrow> Return (Some (idx + int relative_index))
          | None \<Rightarrow> item_index_loop l user_id gs (idx + (1 + int (length member_ids)))))"

definition get_item_index :: "GuildMemberList \<Rightarrow> int \<Rightarrow> int option outcome" where
  "get_item_index g user_id = item_index_loop (lst g) user_id (groups (lst g)) 1"

text \<open>\<^verbatim>\<open>get_group_item_index\<close>: the loop over \<^verbatim>\<open>groups_complete\<close>, from index 0.\<close>

fun group_item_index_loop :: "MemberList \<Rightarrow> GroupID \<Rightarrow> GroupInfo list \<Rightarrow> int \<Rightarrow> int option outcome" where
  "group_item_index_loop l group_id [] idx = Return None"
| "group_item_index_loop l group_id (g # gs) idx =
     obind (dict_get (data l) (gid g)) (\<lambda>member_ids.
       if \<not> is_offline g \<and> member_ids = [] then group_item_index_loop l group_id gs idx
       else if gid g = group_id then Return (Some idx)
       else group_item_index_loop l group_id gs (idx + (1 + int (length member_ids))))"

definition get_group_item_index :: "GuildMemberList \<Rightarrow> GroupID \<Rightarrow> int option outcome" where
  "get_group_item_index g group_id = group_item_index_loop (lst g) group_id (groups (lst g)) 0"

section \<open>Subscriptions\<close>

text \<open>
  The value that reaches the parameter \<^verbatim>\<open>item_index\<close> of \<^verbatim>\<open>state_is_subbed\<close> and
  \<^verbatim>\<open>resync\<close>: an int, None (an index function found nothing), or the bound method
  \<^verbatim>\<open>self.get_group_item_index\<close> itself, which \<^verbatim>\<open>role_pos_update\<close> passes without
  calling it. \<^verbatim>\<open>a <= item_index <= b\<close> raises TypeError unless it is an int.
\<close>

datatype pyindex = Idx int | IdxNone | IdxMethod

fun index_value :: "int option \<Rightarrow> pyindex" where
  "index_value None = IdxNone"
| "index_value (Some i) = Idx i"

fun py_between :: "int \<Rightarrow> pyindex \<Rightarrow> int \<Rightarrow> bool outcome" where
  "py_between a (Idx i) b = Return (a \<le> i \<and> i \<le> b)"
| "py_between a IdxNone b = Raise TypeError"
| "py_between a IdxMethod b = Raise TypeError"

definition state_ranges :: "(string \<times> (int \<times> int) list) list \<Rightarrow> string \<Rightarrow> (int \<times> int) list" where
  "state_ranges st session_id = (case map_of st session_id of None \<Rightarrow> [] | Some rs \<Rightarrow> rs)"

text \<open>
  \<^verbatim>\<open>self.state[session_id]\<close> on the defaultdict: a missing key is created with the
  empty set.
\<close>

definition state_touch :: "(string \<times> (int \<times> int) list) list \<Rightarrow> string \<Rightarrow> (string \<times> (int \<times> int) list) list" where
  "state_touch st session_id = AList.update session_id (state_ranges st session_id) st"

text \<open>\<^verbatim>\<open>self.state[session_id].add((start, end))\<close>. Python does not fix the order
  in which a set is iterated; the model iterates the newest range first.\<close>

definition state_add :: "(string \<times> (int \<times> int) list) list \<Rightarrow> string \<Rightarrow> int \<times> int \<Rightarrow> (string \<times> (int \<times> int) list) list" where
  "state_add st session_id r = AList.update session_id (List.insert r (state_ranges st session_id)) st"

text \<open>
  The first range of a set that brackets the index (the generator expression of
  \<^verbatim>\<open>resync\<close>); \<^verbatim>\<open>state_is_subbed\<close> asks whether there is one.
\<close>

fun find_range :: "pyindex \<Rightarrow> (int \<times> int) list \<Rightarrow> (int \<times> int) option outcome" where
  "find_range idx [] = Return None"
| "find_range idx (r # rs) =
     obind (py_between (fst r) idx (snd r)) (\<lambda>hit.
       if hit then Return (Some r) else find_range idx rs)"

definition state_is_subbed :: "GuildMemberList \<Rightarrow> pyindex \<Rightarrow> string \<Rightarrow> bool outcome" where
  "state_is_subbed g item_index session_id =
     obind (find_range item_index (state_ranges (state g) session_id)) (\<lambda>r. Return (r \<noteq> None))"

fun subs_filter :: "GuildMemberList \<Rightarrow> pyindex \<Rightarrow> string list \<Rightarrow> string list outcome" where
  "subs_filter g item_index [] = Return []"
| "subs_filter g item_index (sess_id # rest) =
     obind (state_is_subbed g item_index sess_id) (\<lambda>hit.
     obind (subs_filter g item_index rest) (\<lambda>others.
       Return (if hit then sess_id # others else others)))"

definition get_subs :: "GuildMemberList \<Rightarrow> pyindex \<Rightarrow> string list outcome" where
  "get_subs g item_index = subs_filter g item_index (map fst (state g))"

text \<open>
  \<^verbatim>\<open>resync\<close>: every session with a range around the item gets a
  \<^verbatim>\<open>shard_query(session_id, [role_range])\<close> task; the session ids are returned.
\<close>

fun resync :: "GuildMemberList \<Rightarrow> string list \<Rightarrow> pyindex \<Rightarrow> string list outcome \<times> GuildMemberList" where
  "resync g [] item_index = (Return [], g)"
| "resync g (session_id # rest) item_index =
     (let g1 = g\<lparr>state := state_touch (state g) session_id\<rparr>
      in case find_range item_index (state_ranges (state g1) session_id) of
           Raise e \<Rightarrow> (Raise e, g1)
         | Return None \<Rightarrow> resync g1 rest item_index
         | Return (Some role_range) \<Rightarrow>
             sbind (resync (g1\<lparr>tasks := tasks g1 @ [(session_id, [role_range])]\<rparr>) rest item_index)
               (\<lambda>result g2. (Return (session_id # result), g2)))"

definition resync_by_item :: "GuildMemberList \<Rightarrow> pyindex \<Rightarrow> string list outcome \<times> GuildMemberList" where
  "resync_by_item g item_index =
     (case get_subs g item_index of
        Raise e \<Rightarrow> (Raise e, g)
      | Return session_ids \<Rightarrow> resync g session_ids item_index)"

section \<open>Operations and dispatch\<close>

record Operation =
  list_op :: string
  params :: "(string \<times> pyval) list"

definition op_copy :: "Operation \<Rightarrow> string \<Rightarrow> (string \<times> pyval) list \<Rightarrow> (string \<times> pyval) list outcome" where
  "op_copy operation k res = obind (dict_get (params operation) k) (\<lambda>v. Return (AList.update k v res))"

definition to_dict :: "Operation \<Rightarrow> pyval outcome" where
  "to_dict operation =
     (if list_op operation \<notin> {''SYNC'', ''INVALIDATE'', ''INSERT'', ''UPDATE'', ''DELETE''}
      then Raise ValueError
      else
        obind (if list_op operation = ''SYNC''
               then op_copy operation ''items'' [(''op'', PStr (list_op operation))]
               else Return [(''op'', PStr (list_op operation))]) (\<lambda>r1.
        obind (if list_op operation \<in> {''SYNC'', ''INVALIDATE''}
               then op_copy operation ''range'' r1 else Return r1) (\<lambda>r2.
        obind (if list_op operation \<in> {''INSERT'', ''DELETE'', ''UPDATE''}
               then op_copy operation ''index'' r2 else Return r2) (\<lambda>r3.
        obind (if list_op operation \<in> {''INSERT'', ''UPDATE''}
               then op_copy operation ''item'' r3 else Return r3) (\<lambda>r4.
          Return (PDict r4))))))"

definition list_id :: "GuildMemberList \<Rightarrow> string" where
  "list_id g = (if channel_id g = guild_id g then ''everyone'' else string_of_int (channel_id g))"

definition payload_of :: "GuildMemberList \<Rightarrow> (GroupInfo \<times> nat) list \<Rightarrow> pyval list \<Rightarrow> pyval" where
  "payload_of g gc ops =
     PDict [(''id'', PStr (list_id g)),
            (''guild_id'', PStr (string_of_int (guild_id g))),
            (''groups'', PList (map (\<lambda>(grp, n). PDict [(''id'', PStr (str_gid (gid grp))), (''count'', PInt (int n))]) gc)),
            (''ops'', PList ops)]"

text \<open>
  \<^verbatim>\<open>_dispatch_sess\<close>: one \<^verbatim>\<open>GUILD_MEMBER_LIST_UPDATE\<close> payload for every given
  session the state manager knows; the ids dispatched to are returned.
\<close>

definition dispatch_sess :: "env \<Rightarrow> GuildMemberList \<Rightarrow> string list \<Rightarrow> Operation list \<Rightarrow> string list outcome \<times> GuildMemberList" where
  "dispatch_sess E g session_ids operations =
     (case groups_complete (lst g) (groups (lst g)) of
        Raise e \<Rightarrow> (Raise e, g)
      | Return gc \<Rightarrow>
          (case omap to_dict operations of
             Raise e \<Rightarrow> (Raise e, g)
           | Return ops \<Rightarrow>
               (let known = filter (session_known E) session_ids
                in (Return known,
                    g\<lparr>dispatched := dispatched g @
                         map (\<lambda>s. (s, ''GUILD_MEMBER_LIST_UPDATE'', payload_of g gc ops)) known\<rparr>))))"

section \<open>Groups of members\<close>

text \<open>
  \<^verbatim>\<open>GuildMemberList.display_name\<close>, the sort key of a member id. The test
  \<^verbatim>\<open>if not member_id\<close> looks at the id, so a missing member (\<^verbatim>\<open>members.get\<close>
  gives None) fails at the subscript with TypeError.
\<close>

definition display_name :: "MemberList \<Rightarrow> int \<Rightarrow> pyval outcome" where
  "display_name l member_id =
     (let member = (case map_of (members l) member_id of None \<Rightarrow> PNone | Some m \<Rightarrow> m)
      in if member_id = 0 then Return PNone
         else
           obind (py_getitem member ''user'') (\<lambda>u.
           obind (py_getitem u ''username'') (\<lambda>username.
           obind (py_getitem member ''nick'') (\<lambda>nickname.
             Return (if truthy nickname then nickname else username)))))"

fun the_str :: "pyval \<Rightarrow> string" where
  "the_str (PStr s) = s"
| "the_str PNone = []"
| "the_str (PInt i) = []"
| "the_str (PList vs) = []"
| "the_str (PDict d) = []"

fun the_int :: "pyval \<Rightarrow> int" where
  "the_int (PInt i) = i"
| "the_int PNone = 0"
| "the_int (PStr s) = 0"
| "the_int (PList vs) = 0"
| "the_int (PDict d) = 0"

fun is_str :: "pyval \<Rightarrow> bool" where
  "is_str (PStr s) = True"
| "is_str PNone = False"
| "is_str (PInt i) = False"
| "is_str (PList vs) = False"
| "is_str (PDict d) = False"

fun is_int :: "pyval \<Rightarrow> bool" where
  "is_int (PInt i) = True"
| "is_int PNone = False"
| "is_int (PStr s) = False"
| "is_int (PList vs) = False"
| "is_int (PDict d) = False"

text \<open>
  \<^verbatim>\<open>member_ids.sort(key=self.display_name)\<close>. The keys are computed first (a key
  that raises leaves the list as it was). Python's sort is stable, so on keys that
  are all strings, or all ints, the result is the stable sort by the key; a list of
  fewer than two ids is never compared. Any other mix of keys (a None among them, a
  str with an int) raises TypeError at a comparison; the model then leaves the list
  as it was, where Python leaves some permutation of it.
\<close>

definition sort_members :: "MemberList \<Rightarrow> int list \<Rightarrow> int list outcome" where
  "sort_members l member_ids =
     obind (omap (display_name l) member_ids) (\<lambda>keys.
       if length member_ids < 2 then Return member_ids
       else if list_all is_str keys
         then Return (map fst (sort_key (\<lambda>p. the_str (snd p)) (zip member_ids keys)))
       else if list_all is_int keys
         then Return (map fst (sort_key (\<lambda>p. the_int (snd p)) (zip member_ids keys)))
       else Raise TypeError)"

text \<open>
  \<^verbatim>\<open>_sort_groups\<close>: the loop over \<^verbatim>\<open>self.list.data.values()\<close>;
  \<open>sorted_entries\<close> holds the entries already sorted.
\<close>

fun sort_groups_loop :: "MemberList \<Rightarrow> (GroupID \<times> int list) list \<Rightarrow> (GroupID \<times> int list) list \<Rightarrow> unit outcome \<times> MemberList" where
  "sort_groups_loop l sorted_entries [] = (Return (), l\<lparr>data := sorted_entries\<rparr>)"
| "sort_groups_loop l sorted_entries ((k, member_ids) # rest) =
     (case sort_members l member_ids of
        Raise e \<Rightarrow> (Raise e, l\<lparr>data := sorted_entries @ (k, member_ids) # rest\<rparr>)
      | Return ids \<Rightarrow> sort_groups_loop l (sorted_entries @ [(k, ids)]) rest)"

definition sort_groups :: "MemberList \<Rightarrow> unit outcome \<times> MemberList" where
  "sort_groups l = sort_groups_loop l [] (data l)"

definition to_simple_group :: "Presence \<Rightarrow> string outcome" where
  "to_simple_group presence =
     obind (dict_get presence ''status'') (\<lambda>st.
       Return (if st = PStr ''offline'' then ''offline'' else ''online''))"

text \<open>
  \<^verbatim>\<open>_calc_member_group\<close>: the first group whose id is among the member's roles,
  else the simple group of the status.
\<close>

definition calc_member_group :: "MemberList \<Rightarrow> int list \<Rightarrow> pyval \<Rightarrow> GroupID outcome" where
  "calc_member_group l roles status =
     (case filter (\<lambda>grp. gid grp \<in> GInt ` set roles) (groups l) of
        grp # others \<Rightarrow> Return (gid grp)
      | [] \<Rightarrow> obind (to_simple_group [(''status'', status)]) (\<lambda>s. Return (GStr s)))"

text \<open>
  \<^verbatim>\<open>list(map(int, roles))\<close>: the value must be iterable; a str iterates over its
  characters and a dict over its keys.
\<close>

fun int_list :: "env \<Rightarrow> pyval \<Rightarrow> int list outcome" where
  "int_list E (PList vs) = omap (py_int E) vs"
| "int_list E (PStr s) = omap (\<lambda>c. py_int E (PStr [c])) s"
| "int_list E (PDict d) = omap (\<lambda>kv. py_int E (PStr (fst kv))) d"
| "int_list E PNone = Raise TypeError"
| "int_list E (PInt i) = Raise TypeError"

text \<open>
  \<^verbatim>\<open>get_group_for_member\<close>: None for a member who cannot read the channel.
\<close>

definition get_group_for_member :: "env \<Rightarrow> MemberList \<Rightarrow> int \<Rightarrow> pyval \<Rightarrow> pyval \<Rightarrow> GroupID option outcome" where
  "get_group_for_member E l member_id roles status =
     obind (int_list E roles) (\<lambda>member_roles.
       if \<not> member_read E member_id then Return None
       else if status = PStr ''offline'' then Return (Some (GStr ''offline''))
       else obind (calc_member_group l member_roles status) (\<lambda>group_id. Return (Some group_id)))"

text \<open>\<^verbatim>\<open>self.list.data[group_id].append(member_id)\<close>; None is never a key.\<close>

definition data_append :: "MemberList \<Rightarrow> GroupID option \<Rightarrow> int \<Rightarrow> unit outcome \<times> MemberList" where
  "data_append l group_id member_id =
     (case group_id of
        None \<Rightarrow> (Raise KeyError, l)
      | Some k \<Rightarrow>
          (case map_of (data l) k of
             None \<Rightarrow> (Raise KeyError, l)
           | Some ids \<Rightarrow> (Return (), l\<lparr>data := AList.update k (ids @ [member_id]) (data l)\<rparr>)))"

fun list_fill_groups :: "env \<Rightarrow> MemberList \<Rightarrow> int list \<Rightarrow> unit outcome \<times> MemberList" where
  "list_fill_groups E l [] = (Return (), l)"
| "list_fill_groups E l (member_id # rest) =
     (case obind (dict_get (presences l) member_id) (\<lambda>presence.
           obind (dict_get presence ''roles'') (\<lambda>roles.
           obind (dict_get presence ''status'') (\<lambda>status.
             get_group_for_member E l member_id roles status))) of
        Raise e \<Rightarrow> (Raise e, l)
      | Return group_id \<Rightarrow>
          sbind (data_append
                   (l\<lparr>members := AList.update member_id (member_data_one E member_id) (members l)\<rparr>)
                   group_id member_id)
            (\<lambda>u l1. list_fill_groups E l1 rest))"

section \<open>Building the list\<close>

definition fetch_overwrites :: "env \<Rightarrow> MemberList \<Rightarrow> MemberList" where
  "fetch_overwrites E l = l\<lparr>overwrites := chan_overwrites E\<rparr>"

text \<open>
  \<^verbatim>\<open>_can_read_chan\<close>: the group with its permissions replaced by the mixed ones,
  and whether those can read messages.
\<close>

definition can_read_chan :: "env \<Rightarrow> MemberList \<Rightarrow> GroupInfo \<Rightarrow> bool \<times> GroupInfo" where
  "can_read_chan E l grp =
     (let final_perms = overwrite_find_mix E (permissions grp) (overwrites l) (gid grp)
      in (read_messages E final_perms, grp\<lparr>permissions := final_perms\<rparr>))"

text \<open>
  \<^verbatim>\<open>sorted(xs, key=lambda group: group.position, reverse=True)\<close>: stable, and
  \<^verbatim>\<open>reverse=True\<close> keeps the order of equal keys.
\<close>

definition sort_by_position :: "GroupInfo list \<Rightarrow> GroupInfo list" where
  "sort_by_position gs = sort_key (\<lambda>grp. - position grp) gs"

definition get_role_groups :: "env \<Rightarrow> MemberList \<Rightarrow> GroupInfo list \<times> MemberList" where
  "get_role_groups E l =
     (let hoisted = map (\<lambda>row. \<lparr>gid = GInt (role_id row), name = role_name row,
                                position = role_position row, permissions = role_permissions row\<rparr>)
                        (filter role_hoist (storage_roles E));
          hoisted = sort_by_position hoisted;
          l1 = fetch_overwrites E l
      in (map snd (filter fst (map (can_read_chan E l1) hoisted)), l1))"

definition set_groups :: "env \<Rightarrow> MemberList \<Rightarrow> MemberList" where
  "set_groups E l =
     (case get_role_groups E l of
        (role_groups, l1) \<Rightarrow>
          l1\<lparr>groups := role_groups @
               [\<lparr>gid = GStr ''online'', name = ''online'', position = MAX_ROLES + 1, permissions = 0\<rparr>,
                \<lparr>gid = GStr ''offline'', name = ''offline'', position = MAX_ROLES + 2, permissions = 0\<rparr>]\<rparr>)"

text \<open>A dictionary comprehension: later entries overwrite earlier ones with the same key.\<close>

definition dict_of :: "('k \<times> 'v) list \<Rightarrow> ('k \<times> 'v) list" where
  "dict_of kvs = fold (\<lambda>kv d. AList.update (fst kv) (snd kv) d) kvs []"

definition presence_key :: "env \<Rightarrow> Presence \<Rightarrow> (int \<times> Presence) outcome" where
  "presence_key E p =
     obind (dict_get p ''user'') (\<lambda>u.
     obind (py_getitem u ''id'') (\<lambda>i.
     obind (py_int E i) (\<lambda>k. Return (k, p))))"

text \<open>\<^verbatim>\<open>__init_member_list\<close>.\<close>

definition init_member_list :: "env \<Rightarrow> MemberList \<Rightarrow> unit outcome \<times> MemberList" where
  "init_member_list E l =
     (case omap (presence_key E) (guild_presences E) of
        Raise e \<Rightarrow> (Raise e, l)
      | Return ps \<Rightarrow>
          (let l1 = set_groups E (l\<lparr>presences := dict_of ps\<rparr>);
               l2 = l1\<lparr>data := dict_of (map (\<lambda>grp. (gid grp, [])) (groups l1))\<rparr>
           in sbind (list_fill_groups E l2 (storage_member_ids E)) (\<lambda>u l3. sort_groups l3)))"

definition init_check :: "env \<Rightarrow> GuildMemberList \<Rightarrow> unit outcome \<times> GuildMemberList" where
  "init_check E g =
     (if \<not> MemberList_bool (lst g)
      then (case init_member_list E (lst g) of (r, l) \<Rightarrow> (r, g\<lparr>lst := l\<rparr>))
      else (Return (), g))"

section \<open>Subscribing: shard_query\<close>

definition sync_op :: "int \<Rightarrow> int \<Rightarrow> pyval list \<Rightarrow> Operation" where
  "sync_op start stop its =
     \<lparr>list_op = ''SYNC'',
      params = [(''range'', PList [PInt start, PInt stop]), (''items'', PList (py_slice its start stop))]\<rparr>"

text \<open>
  The loop of \<^verbatim>\<open>shard_query\<close> over the requested ranges: a range with
  \<^verbatim>\<open>end - start < 0\<close> is skipped, any other is added to the session's set and
  answered with a SYNC of \<^verbatim>\<open>self.items[start:end]\<close>.
\<close>

fun shard_query_loop :: "env \<Rightarrow> GuildMemberList \<Rightarrow> string \<Rightarrow> (int \<times> int) list \<Rightarrow> Operation list \<Rightarrow> Operation list outcome \<times> GuildMemberList" where
  "shard_query_loop E g session_id [] ops = (Return ops, g)"
| "shard_query_loop E g session_id (r # ranges) ops =
     (if snd r - fst r < 0 then shard_query_loop E g session_id ranges ops
      else
        (let g1 = g\<lparr>state := state_add (state g) session_id r\<rparr>
         in case items E g1 of
              Raise e \<Rightarrow> (Raise e, g1)
            | Return its \<Rightarrow>
                shard_query_loop E g1 session_id ranges (ops @ [sync_op (fst r) (snd r) its])))"

text \<open>
  \<^verbatim>\<open>shard_query\<close>. When everyone can read the channel and this is not the
  \<^verbatim>\<open>everyone\<close> list, the same call is made on the guild's \<^verbatim>\<open>everyone\<close> list
  instead: this list is left alone, the call is recorded in \<open>forwarded\<close>, and the
  outcome is that of the other list's method, which the environment gives. What
  that list sends is not part of this object's traces.
\<close>

definition shard_query :: "env \<Rightarrow> GuildMemberList \<Rightarrow> string \<Rightarrow> (int \<times> int) list \<Rightarrow> unit outcome \<times> GuildMemberList" where
  "shard_query E g session_id ranges =
     (if everyone_read E \<and> list_id g \<noteq> ''everyone''
      then (everyone_shard_query E session_id ranges,
            g\<lparr>forwarded := forwarded g @ [(session_id, ranges)]\<rparr>)
      else
        sbind (init_check E g) (\<lambda>u g1.
        sbind (shard_query_loop E g1 session_id ranges []) (\<lambda>ops g2.
        sbind (dispatch_sess E g2 [session_id] ops) (\<lambda>sent g3. (Return (), g3)))))"

section \<open>Presence updates\<close>

fun index_pyval :: "int option \<Rightarrow> pyval" where
  "index_pyval None = PNone"
| "index_pyval (Some i) = PInt i"

text \<open>
  \<^verbatim>\<open>_pres_update_simple\<close>: one UPDATE operation for the sessions subscribed to the
  member's item. (\<^verbatim>\<open>get_subs\<close> is a lazy filter in the source; on an int index it
  cannot raise, so when it is consumed makes no difference.)
\<close>

definition pres_update_simple :: "env \<Rightarrow> GuildMemberList \<Rightarrow> int \<Rightarrow> string list outcome \<times> GuildMemberList" where
  "pres_update_simple E g user_id =
     (case get_item_index g user_id of
        Raise e \<Rightarrow> (Raise e, g)
      | Return None \<Rightarrow> (Return [], g)
      | Return (Some item_index) \<Rightarrow>
          (case obind (items E g) (\<lambda>its. py_index its (Some item_index)) of
             Raise e \<Rightarrow> (Raise e, g)
           | Return item \<Rightarrow>
               (case get_subs g (Idx item_index) of
                  Raise e \<Rightarrow> (Raise e, g)
                | Return session_ids \<Rightarrow>
                    dispatch_sess E g session_ids
                      [\<lparr>list_op = ''UPDATE'',
                        params = [(''index'', PInt item_index), (''item'', item)]\<rparr>])))"

text \<open>\<^verbatim>\<open>self.list.data[old_group].remove(user_id)\<close>.\<close>

definition data_remove :: "MemberList \<Rightarrow> GroupID \<Rightarrow> int \<Rightarrow> unit outcome \<times> MemberList" where
  "data_remove l k member_id =
     (case map_of (data l) k of
        None \<Rightarrow> (Raise KeyError, l)
      | Some ids \<Rightarrow>
          if member_id \<in> set ids
          then (Return (), l\<lparr>data := AList.update k (remove1 member_id ids) (data l)\<rparr>)
          else (Raise ValueError, l))"

text \<open>\<^verbatim>\<open>is_birth\<close> and \<^verbatim>\<open>is_empty\<close>.\<close>

definition is_birth :: "MemberList \<Rightarrow> GroupID \<Rightarrow> bool outcome" where
  "is_birth l group_id = obind (dict_get (data l) group_id) (\<lambda>ids. Return (length ids = 1))"

definition is_empty :: "MemberList \<Rightarrow> GroupID \<Rightarrow> bool outcome" where
  "is_empty l group_id = obind (dict_get (data l) group_id) (\<lambda>ids. Return (length ids = 0))"

text \<open>
  The operations \<^verbatim>\<open>_pres_update_complex\<close> builds after the move. They are computed
  (building them can raise) and then dropped: the method resyncs instead. A
  \<open>new_group\<close> that is None is no key of \<open>data\<close>, so \<^verbatim>\<open>is_birth\<close> raises KeyError.
\<close>

definition complex_ops :: "env \<Rightarrow> GuildMemberList \<Rightarrow> GroupID \<Rightarrow> GroupID option \<Rightarrow> int option \<Rightarrow> int option \<Rightarrow> int option \<Rightarrow> Operation list outcome" where
  "complex_ops E g old_group new_group old_user_index old_group_index new_user_index =
     obind (items E g) (\<lambda>its.
     obind (py_index its new_user_index) (\<lambda>item.
     obind (case new_group of
              None \<Rightarrow> Raise KeyError
            | Some k \<Rightarrow>
                obind (is_birth (lst g) k) (\<lambda>birth.
                  if birth \<and> k \<noteq> GStr ''offline''
                  then obind (get_group_item_index g k) (\<lambda>i.
                         Return [\<lparr>list_op = ''INSERT'',
                                  params = [(''index'', index_pyval i),
                                            (''item'', PDict [(''group'', PStr (str_gid k)),
                                                             (''count'', PInt 1)])]\<rparr>])
                  else Return [])) (\<lambda>birth_ops.
     obind (is_empty (lst g) old_group) (\<lambda>emptied.
       Return ([\<lparr>list_op = ''DELETE'', params = [(''index'', index_pyval old_user_index)]\<rparr>,
                \<lparr>list_op = ''INSERT'',
                 params = [(''index'', index_pyval new_user_index), (''item'', item)]\<rparr>]
               @ birth_ops
               @ (if emptied
                  then [\<lparr>list_op = ''DELETE'', params = [(''index'', index_pyval old_group_index)]\<rparr>]
                  else []))))))"

text \<open>
  \<^verbatim>\<open>_pres_update_complex\<close>: move the member from \<open>old_group\<close> to \<open>new_group\<close>,
  sort again, and resync the sessions subscribed to the old and to the new item
  index.
\<close>

definition pres_update_complex :: "env \<Rightarrow> GuildMemberList \<Rightarrow> int \<Rightarrow> GroupID \<Rightarrow> nat \<Rightarrow> GroupID option \<Rightarrow> string list outcome \<times> GuildMemberList" where
  "pres_update_complex E g user_id old_group rel_index new_group =
     (case get_item_index g user_id of
        Raise e \<Rightarrow> (Raise e, g)
      | Return old_user_index \<Rightarrow>
     (case get_group_item_index g old_group of
        Raise e \<Rightarrow> (Raise e, g)
      | Return old_group_index \<Rightarrow>
     (case sbind (data_remove (lst g) old_group user_id) (\<lambda>u l1.
           sbind (data_append l1 new_group user_id) (\<lambda>u l2. sort_groups l2)) of
        (Raise e, l3) \<Rightarrow> (Raise e, g\<lparr>lst := l3\<rparr>)
      | (Return u, l3) \<Rightarrow>
     (let g1 = g\<lparr>lst := l3\<rparr>
      in case get_item_index g1 user_id of
           Raise e \<Rightarrow> (Raise e, g1)
         | Return new_user_index \<Rightarrow>
     (case complex_ops E g1 old_group new_group old_user_index old_group_index new_user_index of
        Raise e \<Rightarrow> (Raise e, g1)
      | Return ops \<Rightarrow>
     (case get_subs g1 (index_value old_user_index) of
        Raise e \<Rightarrow> (Raise e, g1)
      | Return session_ids_old \<Rightarrow>
     (case get_subs g1 (index_value new_user_index) of
        Raise e \<Rightarrow> (Raise e, g1)
      | Return session_ids_new \<Rightarrow>
          sbind (resync g1 session_ids_old (index_value old_user_index)) (\<lambda>r1 g2.
          sbind (resync g2 session_ids_new (index_value new_user_index)) (\<lambda>r2 g3.
            (Return (r1 @ r2), g3))))))))))"

text \<open>
  The loop of \<^verbatim>\<open>pres_update\<close> over the list: the first group that holds the user,
  and the user's index in it.
\<close>

fun find_old_group :: "MemberList \<Rightarrow> int \<Rightarrow> GroupInfo list \<Rightarrow> (GroupID \<times> nat) option outcome" where
  "find_old_group l user_id [] = Return None"
| "find_old_group l user_id (grp # gs) =
     obind (dict_get (data l) (gid grp)) (\<lambda>member_ids.
       case index_of member_ids user_id of
         Some old_index \<Rightarrow> Return (Some (gid grp, old_index))
       | None \<Rightarrow> find_old_group l user_id gs)"

text \<open>\<^verbatim>\<open>d.update(other)\<close>.\<close>

definition dict_update :: "('k \<times> 'v) list \<Rightarrow> ('k \<times> 'v) list \<Rightarrow> ('k \<times> 'v) list" where
  "dict_update d other = fold (\<lambda>kv acc. AList.update (fst kv) (snd kv) acc) other d"

definition dict_get_default :: "('k \<times> 'v) list \<Rightarrow> 'k \<Rightarrow> 'v \<Rightarrow> 'v" where
  "dict_get_default d k dflt = (case map_of d k of None \<Rightarrow> dflt | Some v \<Rightarrow> v)"

text \<open>
  \<^verbatim>\<open>pres_update\<close> from the search for the old group on (the source after the
  \<^verbatim>\<open>pop\<close>): \<open>pp\<close> is the partial presence without \<^verbatim>\<open>'nick'\<close>. The defaults of the
  two \<^verbatim>\<open>get\<close> calls, \<^verbatim>\<open>old_presence['roles']\<close> and \<^verbatim>\<open>old_presence['status']\<close>, are
  evaluated whether they are needed or not.
\<close>

definition pres_update_found :: "env \<Rightarrow> GuildMemberList \<Rightarrow> int \<Rightarrow> Presence \<Rightarrow> bool \<Rightarrow> Presence \<Rightarrow> string list outcome \<times> GuildMemberList" where
  "pres_update_found E g user_id old_presence has_nick pp =
     (case find_old_group (lst g) user_id (groups (lst g)) of
        Raise e \<Rightarrow> (Raise e, g)
      | Return None \<Rightarrow> (Return [], g)
      | Return (Some (old_group, old_index)) \<Rightarrow>
          if \<not> gid_truthy old_group then (Return [], g)
          else
            (case obind (dict_get old_presence ''roles'') (\<lambda>old_roles.
                  obind (dict_get old_presence ''status'') (\<lambda>old_status.
                    get_group_for_member E (lst g) user_id
                      (dict_get_default pp ''roles'' old_roles)
                      (dict_get_default pp ''status'' old_status))) of
               Raise e \<Rightarrow> (Raise e, g)
             | Return new_group \<Rightarrow>
                 (let g1 = g\<lparr>lst := (lst g)\<lparr>presences :=
                             AList.update user_id (dict_update old_presence pp) (presences (lst g))\<rparr>\<rparr>
                  in if Some old_group = new_group \<and> \<not> has_nick
                     then pres_update_simple E g1 user_id
                     else pres_update_complex E g1 user_id old_group old_index new_group)))"

text \<open>
  \<^verbatim>\<open>pres_update\<close>. The partial presence is the caller's dictionary, which the method
  changes with \<^verbatim>\<open>pop('nick')\<close>; the second component of the result is that
  dictionary as the caller finds it afterwards.
\<close>

definition pres_update :: "env \<Rightarrow> GuildMemberList \<Rightarrow> int \<Rightarrow> Presence \<Rightarrow> string list outcome \<times> Presence \<times> GuildMemberList" where
  "pres_update E g user_id partial_presence =
     (case init_check E g of
        (Raise e, g1) \<Rightarrow> (Raise e, partial_presence, g1)
      | (Return u, g1) \<Rightarrow>
          (case dict_get (presences (lst g1)) user_id of
             Raise e \<Rightarrow> (Raise e, partial_presence, g1)
           | Return old_presence \<Rightarrow>
               (let has_nick = (''nick'' \<in> fst ` set partial_presence);
                    pp = AList.delete ''nick'' partial_presence
                in case pres_update_found E g1 user_id old_presence has_nick pp of
                     (r, g2) \<Rightarrow> (r, pp, g2))))"

section \<open>Role events\<close>

text \<open>
  \<^verbatim>\<open>new_role\<close>: a role that can read the channel is put into \<open>groups\<close> with
  \<^verbatim>\<open>self.list.groups.insert(role['position'], new_group)\<close> and gets an empty member
  list. The method returns None on every path.
\<close>

definition new_role :: "env \<Rightarrow> GuildMemberList \<Rightarrow> role_row \<Rightarrow> GuildMemberList" where
  "new_role E g role =
     (if \<not> MemberList_bool (lst g) then g
      else
        (let new_group = \<lparr>gid = GInt (role_id role), name = role_name role,
                          position = role_position role, permissions = role_permissions role\<rparr>;
             l1 = fetch_overwrites E (lst g)
         in case can_read_chan E l1 new_group of
              (readable, grp) \<Rightarrow>
                if \<not> readable then g\<lparr>lst := l1\<rparr>
                else g\<lparr>lst := l1\<lparr>groups := py_insert (groups l1) (role_position role) grp,
                                  data := AList.update (gid grp) [] (data l1)\<rparr>\<rparr>))"

text \<open>
  Modelled from the spec: \<^verbatim>\<open>litecord.utils.index_by_func\<close> is imported by the module
  and not part of it. The spec's "if the role is a current group" and the callers'
  test \<^verbatim>\<open>is None\<close> fix it as the index of the first element that satisfies the
  function, None when there is none.
\<close>

fun index_by_func :: "('a \<Rightarrow> bool) \<Rightarrow> 'a list \<Rightarrow> nat option" where
  "index_by_func f [] = None"
| "index_by_func f (x # xs) =
     (if f x then Some 0 else (case index_by_func f xs of None \<Rightarrow> None | Some i \<Rightarrow> Some (Suc i)))"

definition get_role_as_group_idx :: "GuildMemberList \<Rightarrow> int \<Rightarrow> nat option" where
  "get_role_as_group_idx g rid =
     (if \<not> MemberList_bool (lst g) then None
      else index_by_func (\<lambda>grp. gid grp = GInt rid) (groups (lst g)))"

text \<open>
  \<^verbatim>\<open>role_pos_update\<close>. The source sets \<^verbatim>\<open>old_index = self.get_group_item_index\<close>, the
  method itself, and asks \<^verbatim>\<open>get_subs\<close> for the sessions subscribed to it.
\<close>

definition role_pos_update :: "env \<Rightarrow> GuildMemberList \<Rightarrow> role_row \<Rightarrow> string list option outcome \<times> GuildMemberList" where
  "role_pos_update E g role =
     (case get_subs g IdxMethod of
        Raise e \<Rightarrow> (Raise e, g)
      | Return old_sessions \<Rightarrow>
          (case get_role_as_group_idx g (role_id role) of
             None \<Rightarrow> (Return None, g)
           | Some groups_idx \<Rightarrow>
               (let gs = groups (lst g);
                    new_groups = sort_by_position
                       (gs[groups_idx := (gs ! groups_idx)\<lparr>position := role_position role\<rparr>]);
                    g1 = g\<lparr>lst := (lst g)\<lparr>groups := new_groups\<rparr>\<rparr>
                in case get_group_item_index g1 (GInt (role_id role)) of
                     Raise e \<Rightarrow> (Raise e, g1)
                   | Return new_index \<Rightarrow>
                       sbind (resync g1 old_sessions IdxMethod) (\<lambda>r1 g2.
                       sbind (resync_by_item g2 (index_value new_index)) (\<lambda>r2 g3.
                         (Return (Some (r1 @ r2)), g3))))))"

text \<open>
  The \<^verbatim>\<open>try\<close> block of \<^verbatim>\<open>role_delete\<close>: pop the role's members and put each into
  another group. A KeyError raised anywhere in the block is caught and logged.
\<close>

definition role_delete_reassign :: "env \<Rightarrow> MemberList \<Rightarrow> int \<Rightarrow> unit outcome \<times> MemberList" where
  "role_delete_reassign E l rid =
     (case map_of (data l) (GInt rid) of
        None \<Rightarrow> (Return (), l)
      | Some member_ids \<Rightarrow>
          (case sbind (list_fill_groups E (l\<lparr>data := AList.delete (GInt rid) (data l)\<rparr>) member_ids)
                  (\<lambda>u l1. sort_groups l1) of
             (Raise KeyError, l2) \<Rightarrow> (Return (), l2)
           | (Raise TypeError, l2) \<Rightarrow> (Raise TypeError, l2)
           | (Raise ValueError, l2) \<Rightarrow> (Raise ValueError, l2)
           | (Raise IndexError, l2) \<Rightarrow> (Raise IndexError, l2)
           | (Return u, l2) \<Rightarrow> (Return (), l2)))"

text \<open>
  \<^verbatim>\<open>role_delete\<close>: None for a list that is not initialized, else the session ids
  that \<^verbatim>\<open>resync\<close> returns.
\<close>

definition role_delete :: "env \<Rightarrow> GuildMemberList \<Rightarrow> int \<Rightarrow> string list option outcome \<times> GuildMemberList" where
  "role_delete E g rid =
     (if \<not> MemberList_bool (lst g) then (Return None, g)
      else
        (case get_group_item_index g (GInt rid) of
           Raise e \<Rightarrow> (Raise e, g)
         | Return role_item_index \<Rightarrow>
        (case (case role_item_index of None \<Rightarrow> Return [] | Some i \<Rightarrow> get_subs g (Idx i)) of
           Raise e \<Rightarrow> (Raise e, g)
         | Return sess_ids_resync \<Rightarrow>
        (let l = lst g;
             l1 = (case index_by_func (\<lambda>grp. gid grp = GInt rid) (groups l) of
                     None \<Rightarrow> l
                   | Some i \<Rightarrow> l\<lparr>groups := take i (groups l) @ drop (Suc i) (groups l)\<rparr>)
         in case role_delete_reassign E l1 rid of
              (Raise e, l2) \<Rightarrow> (Raise e, g\<lparr>lst := l2\<rparr>)
            | (Return u, l2) \<Rightarrow>
                sbind (resync (g\<lparr>lst := l2\<lparr>overwrites := AList.delete rid (overwrites l2)\<rparr>\<rparr>)
                         sess_ids_resync (index_value role_item_index))
                  (\<lambda>r g2. (Return (Some r), g2))))))"

section \<open>Concrete lists\<close>

text \<open>
  A guild with id 1 and its channel 1 (so the list is the \<^verbatim>\<open>everyone\<close> list), member
  10 (alice, online) and member 20 (bob, offline), no hoisted role. Permissions
  1024 can read messages; overwrites change nothing.
\<close>

definition ex_env :: env where
  "ex_env = \<lparr>everyone_read = True, everyone_shard_query = (\<lambda>s rs. Return ()),
     member_read = (\<lambda>m. True), chan_overwrites = [],
     overwrite_find_mix = (\<lambda>p ov k. p), read_messages = (\<lambda>p. p = 1024),
     session_known = (\<lambda>s. True), storage_member_ids = [], guild_presences = [],
     storage_roles = [], member_data_one = (\<lambda>m. PNone), int_of_str = (\<lambda>s. None),
     str_of_container = (\<lambda>v. [])\<rparr>"

definition member_A :: pyval where
  "member_A = PDict [(''user'', PDict [(''id'', PStr ''10''), (''username'', PStr ''alice'')]),
                     (''nick'', PNone), (''roles'', PList [])]"

definition member_B :: pyval where
  "member_B = PDict [(''user'', PDict [(''id'', PStr ''20''), (''username'', PStr ''bob'')]),
                     (''nick'', PNone), (''roles'', PList [])]"

definition pres_A :: Presence where
  "pres_A = [(''user'', PDict [(''id'', PStr ''10'')]), (''status'', PStr ''online''),
             (''game'', PNone), (''activities'', PList []), (''roles'', PList [])]"

definition pres_B :: Presence where
  "pres_B = [(''user'', PDict [(''id'', PStr ''20'')]), (''status'', PStr ''offline''),
             (''game'', PNone), (''activities'', PList []), (''roles'', PList [])]"

definition g_online :: GroupInfo where
  "g_online = \<lparr>gid = GStr ''online'', name = ''online'', position = 251, permissions = 0\<rparr>"

definition g_offline :: GroupInfo where
  "g_offline = \<lparr>gid = GStr ''offline'', name = ''offline'', position = 252, permissions = 0\<rparr>"

definition ex_list :: MemberList where
  "ex_list = \<lparr>groups = [g_online, g_offline],
              data = [(GStr ''online'', [10]), (GStr ''offline'', [20])],
              presences = [(10, pres_A), (20, pres_B)],
              members = [(10, member_A), (20, member_B)],
              overwrites = []\<rparr>"

definition ex_gml :: GuildMemberList where
  "ex_gml = \<lparr>guild_id = 1, channel_id = 1, lst = ex_list, state = [], dispatched = [],
             tasks = [], forwarded = []\<rparr>"

text \<open>The same guild with alice alone, so that nobody is offline.\<close>

definition ex_gml_online_only :: GuildMemberList where
  "ex_gml_online_only =
     ex_gml\<lparr>lst := \<lparr>groups = [g_online, g_offline],
                     data = [(GStr ''online'', [10]), (GStr ''offline'', [])],
                     presences = [(10, pres_A)],
                     members = [(10, member_A)],
                     overwrites = []\<rparr>\<rparr>"

text \<open>A list that was never filled: what \<^verbatim>\<open>MemberList()\<close> constructs.\<close>

definition ex_gml_blank :: GuildMemberList where
  "ex_gml_blank =
     ex_gml\<lparr>lst := \<lparr>groups = [], data = [], presences = [], members = [], overwrites = []\<rparr>\<rparr>"

text \<open>
  Role 5 (hoisted, position 1, can read messages), held by alice; session \<^verbatim>\<open>s1\<close> is
  subscribed to the range (0, 3).
\<close>

definition role5 :: role_row where
  "role5 = \<lparr>role_id = 5, role_name = ''mods'', role_hoist = True, role_position = 1,
            role_permissions = 1024\<rparr>"

definition g_role5 :: GroupInfo where
  "g_role5 = \<lparr>gid = GInt 5, name = ''mods'', position = 1, permissions = 1024\<rparr>"

definition ex_gml_role :: GuildMemberList where
  "ex_gml_role =
     ex_gml\<lparr>lst := \<lparr>groups = [g_role5, g_online, g_offline],
                     data = [(GInt 5, [10]), (GStr ''online'', []), (GStr ''offline'', [20])],
                     presences = [(10, AList.update ''roles'' (PList [PInt 5]) pres_A), (20, pres_B)],
                     members = [(10, member_A), (20, member_B)],
                     overwrites = []\<rparr>,
            state := [(''s1'', [(0, 3)])]\<rparr>"

text \<open>The first list with a channel overwrite for role 7, which is not hoisted.\<close>

definition ex_gml_overwrite :: GuildMemberList where
  "ex_gml_overwrite =
     ex_gml\<lparr>lst := ex_list\<lparr>overwrites := [(7, PDict [(''id'', PStr ''7''), (''type'', PStr ''role'')])]\<rparr>\<rparr>"


definition ex_gml_subscribed :: GuildMemberList where
  "ex_gml_subscribed = ex_gml\<lparr>state := [(''s1'', [(0, 3)])]\<rparr>"



section \<open>Lemmas\<close>

subsection \<open>Dictionaries and index searches\<close>


lemma key_has_entry: "k \<in> fst ` set d \<Longrightarrow> \<exists>v. dict_get d k = Return v"
  by (cases "map_of d k") (auto simp: dict_get_def map_of_eq_None_iff)

lemma group_item_index_loop_absent:
  "gid ` set gs \<subseteq> fst ` set (data l) \<Longrightarrow> k \<notin> gid ` set gs \<Longrightarrow>
   group_item_index_loop l k gs idx = Return None"
proof (induction gs arbitrary: idx)
  case Nil
  show ?case by simp
next
  case (Cons grp gs)
  from Cons.prems obtain ids where "dict_get (data l) (gid grp) = Return ids"
    using key_has_entry [of "gid grp" "data l"] by auto
  moreover have "gid grp \<noteq> k" using Cons.prems by auto
  moreover have "\<And>i. group_item_index_loop l k gs i = Return None"
    using Cons by auto
  ultimately show ?case by (simp add: obind_def)
qed

lemma index_by_func_none: "\<forall>x\<in>set xs. \<not> f x \<Longrightarrow> index_by_func f xs = None"
  by (induction xs) auto

subsection \<open>The loop of shard_query\<close>











text \<open>A slice from a start that is not negative stops before the index \<open>e\<close>.\<close>

lemma py_slice_stops_before_end:
  "0 \<le> s \<Longrightarrow> s \<le> e \<Longrightarrow> py_slice xs s e = take (nat (e - s)) (drop (nat s) xs)"
  by (auto simp: py_slice_def slice_bound_def Let_def min_def nat_diff_distrib)




subsection \<open>Building the list twice\<close>






lemma data_append_keeps_members:
  "data_append l k m = (r, l') \<Longrightarrow> members l' = members l"
  by (auto simp: data_append_def split: option.splits)














subsection \<open>What resync and pres_update leave alone\<close>

lemma resync_frame:
  "dispatched (snd (resync g sids idx)) = dispatched g"
proof (induction sids arbitrary: g)
  case Nil
  show ?case by simp
next
  case (Cons sid sids)
  let ?g1 = "g\<lparr>state := state_touch (state g) sid\<rparr>"
  show ?case
  proof (cases "find_range idx (state_ranges (state ?g1) sid)")
    case (Raise e)
    then show ?thesis by (simp add: Let_def)
  next
    case (Return found)
    show ?thesis
    proof (cases found)
      case None
      then show ?thesis using Return Cons.IH [of ?g1] by (simp add: Let_def)
    next
      case (Some role_range)
      let ?g2 = "?g1\<lparr>tasks := tasks ?g1 @ [(sid, [role_range])]\<rparr>"
      have "dispatched (snd (resync ?g2 sids idx)) = dispatched g"
        using Cons.IH [of ?g2] by simp
      then show ?thesis using Return Some
        by (cases "resync ?g2 sids idx") (auto simp: Let_def sbind_def split: outcome.splits)
    qed
  qed
qed




lemma resync_frameD: "resync g sids idx = (r, g') \<Longrightarrow> dispatched g' = dispatched g"
  using resync_frame [of g sids idx] by simp

lemma init_check_frame: "dispatched (snd (init_check E g)) = dispatched g"
  by (simp add: init_check_def split: prod.splits)

lemma pres_update_complex_frame:
  "dispatched (snd (pres_update_complex E g uid og oi ng)) = dispatched g"
  unfolding pres_update_complex_def Let_def sbind_def
  by (auto split: outcome.splits prod.splits dest!: resync_frameD)

lemma pres_update_found_frame:
  "dispatched (snd (pres_update_found E g uid old True pp)) = dispatched g"
  unfolding pres_update_found_def Let_def
  by (simp add: pres_update_complex_frame split: outcome.splits option.splits prod.splits)

lemma pres_update_found_frameD:
  "pres_update_found E g uid old True pp = (r, g') \<Longrightarrow> dispatched g' = dispatched g"
  using pres_update_found_frame [of E g uid old pp] by simp

lemma init_check_frameD: "init_check E g = (r, g') \<Longrightarrow> dispatched g' = dispatched g"
  using init_check_frame [of E g] by simp

lemma shard_query_loop_sync:
  "list_all (\<lambda>operation. list_op operation = ''SYNC'') ops \<Longrightarrow>
   shard_query_loop E g sid rs ops = (Return ops', g') \<Longrightarrow>
   list_all (\<lambda>operation. list_op operation = ''SYNC'') ops'"
proof (induction rs arbitrary: g ops)
  case Nil
  then show ?case by simp
next
  case (Cons r rs)
  show ?case
  proof (cases "snd r - fst r < 0")
    case True
    then show ?thesis using Cons by simp
  next
    case False
    with Cons.prems(2) obtain its where
      "shard_query_loop E (g\<lparr>state := state_add (state g) sid r\<rparr>) sid rs
         (ops @ [sync_op (fst r) (snd r) its]) = (Return ops', g')"
      by (auto simp: Let_def split: outcome.splits)
    moreover have "list_all (\<lambda>operation. list_op operation = ''SYNC'') (ops @ [sync_op (fst r) (snd r) its])"
      using Cons.prems(1) by (simp add: sync_op_def)
    ultimately show ?thesis using Cons.IH by blast
  qed
qed

section \<open>Results\<close>

subsection \<open>Where the code departs from the specification\<close>

text \<open>
  C1. The specification has \<^verbatim>\<open>shard_query\<close> answer a range (start, end) with the
  items from index start through index end, so that the range [0, 0] on a non-empty
  list yields the first item. The source slices \<^verbatim>\<open>self.items[start:end]\<close>, which
  stops before \<^verbatim>\<open>end\<close>: on the list of alice and bob, whose item sequence has four
  items and starts with the header of \<^verbatim>\<open>online\<close>, the SYNC for [0, 0] carries no item
  at all.
\<close>

theorem shard_query_range_0_0_carries_no_item:
  "(case items ex_env ex_gml of
      Return its \<Rightarrow> (length its, hd its)
    | Raise e \<Rightarrow> (0, PNone))
     = (4, PDict [(''group'', PDict [(''id'', PStr ''online''), (''count'', PInt 1)])])
   \<and> fst (shard_query_loop ex_env ex_gml ''s1'' [(0, 0)] [])
       = Return [\<lparr>list_op = ''SYNC'',
                  params = [(''range'', PList [PInt 0, PInt 0]), (''items'', PList [])]\<rparr>]
   \<and> map (\<lambda>d. py_getitem (snd (snd d)) ''ops'')
         (dispatched (snd (shard_query ex_env ex_gml ''s1'' [(0, 0)])))
       = [Return (PList [PDict [(''op'', PStr ''SYNC''), (''items'', PList []),
                                (''range'', PList [PInt 0, PInt 0])]])]"
  by code_simp

text \<open>
  C2. The specification has the header of \<^verbatim>\<open>offline\<close> in the item sequence even
  when nobody is offline. The \<^verbatim>\<open>items\<close> property skips every group without a
  member: with alice alone the sequence is the header of \<^verbatim>\<open>online\<close> and alice's
  item, while \<^verbatim>\<open>groups_complete\<close> (over \<^verbatim>\<open>iter_non_empty\<close>) does list
  \<^verbatim>\<open>offline\<close> with count 0. For a guild without members the list stays
  uninitialized after \<^verbatim>\<open>_init_check\<close> and the item sequence is empty.
\<close>

theorem items_has_no_header_for_empty_offline:
  "(case items ex_env ex_gml_online_only of
      Return its \<Rightarrow> map (\<lambda>it. py_getitem it ''group'') its
    | Raise e \<Rightarrow> [])
     = [Return (PDict [(''id'', PStr ''online''), (''count'', PInt 1)]), Raise KeyError]
   \<and> groups_complete (lst ex_gml_online_only) (groups (lst ex_gml_online_only))
       = Return [(g_online, 1), (g_offline, 0)]
   \<and> fst (init_check ex_env ex_gml_blank) = Return ()
   \<and> data (lst (snd (init_check ex_env ex_gml_blank)))
       = [(GStr ''online'', []), (GStr ''offline'', [])]
   \<and> items ex_env (snd (init_check ex_env ex_gml_blank)) = Return []"
  by code_simp

text \<open>
  C3. The specification has \<^verbatim>\<open>role_pos_update\<close> move the group and resync the
  sessions around the header's old and new index. The source passes the method
  \<^verbatim>\<open>self.get_group_item_index\<close> itself as the old index, so the first comparison
  with a subscribed range raises TypeError before anything is updated: role 5 has
  its header at index 0, session \<^verbatim>\<open>s1\<close> is subscribed to it, and the update of the
  role's position to 0 raises and leaves the list as it was.
\<close>

theorem role_pos_update_raises_with_a_subscriber:
  "get_group_item_index ex_gml_role (GInt 5) = Return (Some 0)
   \<and> get_subs ex_gml_role (Idx 0) = Return [''s1'']
   \<and> role_pos_update ex_env ex_gml_role (role5\<lparr>role_position := 0\<rparr>)
       = (Raise TypeError, ex_gml_role)"
  by code_simp

text \<open>
  C4. The specification has \<^verbatim>\<open>new_role\<close> keep \<open>groups\<close> sorted with \<^verbatim>\<open>online\<close>
  and \<^verbatim>\<open>offline\<close> last. The source inserts at the list index
  \<^verbatim>\<open>role['position']\<close>: role 5 with position 1 lands between the two synthetic
  groups.
\<close>

theorem new_role_inserts_after_online:
  "MemberList_bool (lst ex_gml)
   \<and> read_messages ex_env (overwrite_find_mix ex_env (role_permissions role5) (chan_overwrites ex_env)
        (GInt (role_id role5)))
   \<and> map gid (groups (lst (new_role ex_env ex_gml role5)))
       = [GStr ''online'', GInt 5, GStr ''offline'']"
  by code_simp

text \<open>
  C5. The specification has \<^verbatim>\<open>pres_update\<close> return an empty result for a user
  who is in no group. The source reads \<^verbatim>\<open>self.list.presences[user_id]\<close> before it
  looks for the group: user 99, who is in no group and has no stored presence,
  makes the call raise KeyError.
\<close>

theorem pres_update_unknown_user_raises:
  "MemberList_bool (lst ex_gml)
   \<and> find_old_group (lst ex_gml) 99 (groups (lst ex_gml)) = Return None
   \<and> pres_update ex_env ex_gml 99 [(''status'', PStr ''online'')]
       = (Raise KeyError, [(''status'', PStr ''online'')], ex_gml)"
  by code_simp

subsection \<open>Claims that hold\<close>

text \<open>
  C7. Whenever the partial presence given to \<^verbatim>\<open>pres_update\<close> has the key
  \<^verbatim>\<open>'nick'\<close>, the update never emits an UPDATE operation and takes the complex
  path, also when the resolved group is the old one. First, whatever the list, the
  user and the outcome, the call hands no payload at all to a session: the dispatch
  trace is unchanged (the simple path is the only one that dispatches). Second, for
  a user found in a group \<open>og\<close> of an initialized list (with a truthy group id, and
  a new group \<open>ng\<close> that could be computed, equal to \<open>og\<close> or not) the call is
  \<^verbatim>\<open>_pres_update_complex\<close> on the list with the presence merged. Third, the tasks
  that the complex path schedules are \<^verbatim>\<open>shard_query\<close> calls, and every operation
  such a call builds is a SYNC.
\<close>

theorem pres_update_with_nick_is_complex:
  assumes "''nick'' \<in> fst ` set pp"
  shows "dispatched (snd (snd (pres_update E g uid pp))) = dispatched g
    \<and> (\<forall>old old_roles old_status og oi ng.
          MemberList_bool (lst g)
          \<and> map_of (presences (lst g)) uid = Some old
          \<and> find_old_group (lst g) uid (groups (lst g)) = Return (Some (og, oi))
          \<and> gid_truthy og
          \<and> dict_get old ''roles'' = Return old_roles
          \<and> dict_get old ''status'' = Return old_status
          \<and> get_group_for_member E (lst g) uid
                (dict_get_default (AList.delete ''nick'' pp) ''roles'' old_roles)
                (dict_get_default (AList.delete ''nick'' pp) ''status'' old_status) = Return ng
          \<longrightarrow> pres_update E g uid pp =
                (case pres_update_complex E
                        (g\<lparr>lst := (lst g)\<lparr>presences :=
                              AList.update uid (dict_update old (AList.delete ''nick'' pp))
                                (presences (lst g))\<rparr>\<rparr>)
                        uid og oi ng of
                   (r, g2) \<Rightarrow> (r, AList.delete ''nick'' pp, g2)))
    \<and> (\<forall>g1 sid rs ops g2. shard_query_loop E g1 sid rs [] = (Return ops, g2)
          \<longrightarrow> list_all (\<lambda>operation. list_op operation = ''SYNC'') ops)"
proof (intro conjI allI impI)
  show "dispatched (snd (snd (pres_update E g uid pp))) = dispatched g"
    using assms
    by (auto simp: pres_update_def Let_def split: prod.splits outcome.splits
          dest!: pres_update_found_frameD init_check_frameD)
next
  fix old old_roles old_status og oi ng
  assume h: "MemberList_bool (lst g)
          \<and> map_of (presences (lst g)) uid = Some old
          \<and> find_old_group (lst g) uid (groups (lst g)) = Return (Some (og, oi))
          \<and> gid_truthy og
          \<and> dict_get old ''roles'' = Return old_roles
          \<and> dict_get old ''status'' = Return old_status
          \<and> get_group_for_member E (lst g) uid
                (dict_get_default (AList.delete ''nick'' pp) ''roles'' old_roles)
                (dict_get_default (AList.delete ''nick'' pp) ''status'' old_status) = Return ng"
  then have ic: "init_check E g = (Return (), g)"
    by (simp add: init_check_def)
  from h have old: "dict_get (presences (lst g)) uid = Return old"
    by (simp add: dict_get_def)
  show "pres_update E g uid pp =
          (case pres_update_complex E
                  (g\<lparr>lst := (lst g)\<lparr>presences :=
                        AList.update uid (dict_update old (AList.delete ''nick'' pp))
                          (presences (lst g))\<rparr>\<rparr>)
                  uid og oi ng of
             (r, g2) \<Rightarrow> (r, AList.delete ''nick'' pp, g2))"
    using assms h
    by (simp add: pres_update_def ic old Let_def pres_update_found_def obind_def)
next
  fix g1 :: GuildMemberList and sid rs ops g2
  assume "shard_query_loop E g1 sid rs [] = (Return ops, g2)"
  then show "list_all (\<lambda>operation. list_op operation = ''SYNC'') ops"
    using shard_query_loop_sync [of "[]" E g1 sid rs ops g2] by simp
qed

text \<open>
  The theorem at alice in the list with session \<^verbatim>\<open>s1\<close>: her partial presence holds
  only a nickname, her group stays \<^verbatim>\<open>online\<close>, and the call resyncs \<^verbatim>\<open>s1\<close> twice
  (once for the old and once for the new item index) without dispatching.
\<close>

theorem pres_update_with_nick_is_complex_witness:
  "''nick'' \<in> fst ` set [(''nick'', PStr ''zed'')]
   \<and> find_old_group (lst ex_gml_subscribed) 10 (groups (lst ex_gml_subscribed)) = Return (Some (GStr ''online'', 0))
   \<and> get_group_for_member ex_env (lst ex_gml_subscribed) 10 (PList []) (PStr ''online'') = Return (Some (GStr ''online''))
   \<and> dispatched (snd (snd (pres_update ex_env ex_gml_subscribed 10 [(''nick'', PStr ''zed'')]))) = []
   \<and> pres_update ex_env ex_gml_subscribed 10 [(''nick'', PStr ''zed'')]
       = (case pres_update_complex ex_env ex_gml_subscribed 10 (GStr ''online'') 0 (Some (GStr ''online'')) of
            (r, g2) \<Rightarrow> (r, [], g2))
   \<and> fst (pres_update ex_env ex_gml_subscribed 10 [(''nick'', PStr ''zed'')]) = Return [''s1'', ''s1'']
   \<and> tasks (snd (snd (pres_update ex_env ex_gml_subscribed 10 [(''nick'', PStr ''zed'')])))
       = [(''s1'', [(0, 3)]), (''s1'', [(0, 3)])]"
proof -
  let ?pp = "[(''nick'', PStr ''zed'')]"
  have h0: "''nick'' \<in> fst ` set ?pp" by code_simp
  have h1: "find_old_group (lst ex_gml_subscribed) 10 (groups (lst ex_gml_subscribed)) = Return (Some (GStr ''online'', 0))"
    by code_simp
  have h2: "get_group_for_member ex_env (lst ex_gml_subscribed) 10 (PList []) (PStr ''online'') = Return (Some (GStr ''online''))"
    by code_simp
  note T = pres_update_with_nick_is_complex [OF h0, of ex_env ex_gml_subscribed 10]
  have d0: "dispatched ex_gml_subscribed = []" by code_simp
  from T have c1: "dispatched (snd (snd (pres_update ex_env ex_gml_subscribed 10 ?pp))) = []"
    by (simp only: d0)
  have pre: "MemberList_bool (lst ex_gml_subscribed)
          \<and> map_of (presences (lst ex_gml_subscribed)) 10 = Some pres_A
          \<and> find_old_group (lst ex_gml_subscribed) 10 (groups (lst ex_gml_subscribed)) = Return (Some (GStr ''online'', 0))
          \<and> gid_truthy (GStr ''online'')
          \<and> dict_get pres_A ''roles'' = Return (PList [])
          \<and> dict_get pres_A ''status'' = Return (PStr ''online'')
          \<and> get_group_for_member ex_env (lst ex_gml_subscribed) 10
                (dict_get_default (AList.delete ''nick'' ?pp) ''roles'' (PList []))
                (dict_get_default (AList.delete ''nick'' ?pp) ''status'' (PStr ''online'')) = Return (Some (GStr ''online''))"
    by code_simp
  have e1: "ex_gml_subscribed\<lparr>lst := (lst ex_gml_subscribed)\<lparr>presences :=
              AList.update 10 (dict_update pres_A [])
                (presences (lst ex_gml_subscribed))\<rparr>\<rparr> = ex_gml_subscribed"
    by code_simp
  have e2: "AList.delete ''nick'' ?pp = []" by code_simp
  from conjunct1 [OF conjunct2 [OF T], rule_format, OF pre]
  have c2: "pres_update ex_env ex_gml_subscribed 10 ?pp
       = (case pres_update_complex ex_env ex_gml_subscribed 10 (GStr ''online'') 0 (Some (GStr ''online'')) of
            (r, g2) \<Rightarrow> (r, [], g2))"
    by (simp only: e2 e1)
  have c3: "fst (pres_update ex_env ex_gml_subscribed 10 ?pp) = Return [''s1'', ''s1'']"
    by code_simp
  have c4: "tasks (snd (snd (pres_update ex_env ex_gml_subscribed 10 ?pp))) = [(''s1'', [(0, 3)]), (''s1'', [(0, 3)])]"
    by code_simp
  from h0 h1 h2 c1 c2 c3 c4 show ?thesis by (intro conjI)
qed





subsection \<open>Claims that hold after an amendment\<close>

text \<open>
  C6 as stated fails: \<^verbatim>\<open>role_delete\<close> of a role that is no group still pops the
  role's entry from \<open>overwrites\<close>. Role 7 is no group of the list below and has a
  channel overwrite; after the call the overwrite is gone.
\<close>

theorem role_delete_changes_overwrites:
  "MemberList_bool (lst ex_gml_overwrite)
   \<and> GInt 7 \<notin> gid ` set (groups (lst ex_gml_overwrite))
   \<and> fst (role_delete ex_env ex_gml_overwrite 7) = Return (Some [])
   \<and> overwrites (lst ex_gml_overwrite) = [(7, PDict [(''id'', PStr ''7''), (''type'', PStr ''role'')])]
   \<and> overwrites (lst (snd (role_delete ex_env ex_gml_overwrite 7))) = []
   \<and> lst (snd (role_delete ex_env ex_gml_overwrite 7)) \<noteq> lst ex_gml_overwrite"
  by code_simp


text \<open>
  C6, amended. For an initialized list whose \<open>data\<close> has exactly the ids of its
  groups as keys (as \<^verbatim>\<open>__init_member_list\<close> allocates them) and a role id that is
  no group, \<^verbatim>\<open>role_delete\<close> returns the empty list and changes nothing but
  \<open>overwrites\<close>, from which the role's entry is dropped.
\<close>

theorem role_delete_of_a_non_group:
  assumes "MemberList_bool (lst g)"
    and "GInt rid \<notin> gid ` set (groups (lst g))"
    and "fst ` set (data (lst g)) = gid ` set (groups (lst g))"
  shows "role_delete E g rid
         = (Return (Some []), g\<lparr>lst := (lst g)\<lparr>overwrites := AList.delete rid (overwrites (lst g))\<rparr>\<rparr>)"
proof -
  have idx: "get_group_item_index g (GInt rid) = Return None"
    unfolding get_group_item_index_def
    using assms(2,3) by (intro group_item_index_loop_absent) auto
  have nogroup: "index_by_func (\<lambda>grp. gid grp = GInt rid) (groups (lst g)) = None"
    using assms(2) by (intro index_by_func_none) force
  have nodata: "map_of (data (lst g)) (GInt rid) = None"
    using assms(2,3) by (simp add: map_of_eq_None_iff)
  show ?thesis
    using assms(1) by (simp add: role_delete_def idx nogroup role_delete_reassign_def nodata sbind_def Let_def)
qed


text \<open>The amended theorem at role 7: the result is the list without the overwrite.\<close>

theorem role_delete_of_a_non_group_witness:
  "MemberList_bool (lst ex_gml_overwrite)
   \<and> GInt 7 \<notin> gid ` set (groups (lst ex_gml_overwrite))
   \<and> fst ` set (data (lst ex_gml_overwrite)) = gid ` set (groups (lst ex_gml_overwrite))
   \<and> role_delete ex_env ex_gml_overwrite 7 = (Return (Some []), ex_gml)"
proof -
  have h1: "MemberList_bool (lst ex_gml_overwrite)" by code_simp
  have h2: "GInt 7 \<notin> gid ` set (groups (lst ex_gml_overwrite))" by code_simp
  have h3: "fst ` set (data (lst ex_gml_overwrite)) = gid ` set (groups (lst ex_gml_overwrite))"
    by code_simp
  have e: "ex_gml_overwrite\<lparr>lst := (lst ex_gml_overwrite)\<lparr>overwrites :=
             AList.delete 7 (overwrites (lst ex_gml_overwrite))\<rparr>\<rparr> = ex_gml"
    by code_simp
  have "role_delete ex_env ex_gml_overwrite 7 = (Return (Some []), ex_gml)"
    using role_delete_of_a_non_group [OF h1 h2 h3, of ex_env] by (simp only: e)
  with h1 h2 h3 show ?thesis by (intro conjI)
qed






text \<open>
  C9 as stated fails: the lookup \<^verbatim>\<open>self.list.presences[user_id]\<close> comes before the
  \<^verbatim>\<open>pop\<close>, so for user 99, who has no stored presence, the call raises and the
  caller's dictionary still holds \<^verbatim>\<open>'nick'\<close>.
\<close>

theorem pres_update_keeps_nick_when_lookup_fails:
  "MemberList_bool (lst ex_gml)
   \<and> pres_update ex_env ex_gml 99 [(''nick'', PStr ''zed'')]
       = (Raise KeyError, [(''nick'', PStr ''zed'')], ex_gml)
   \<and> ''nick'' \<in> fst ` set (fst (snd (pres_update ex_env ex_gml 99 [(''nick'', PStr ''zed'')])))"
  by code_simp


text \<open>
  C9, amended. When the list is initialized (or \<^verbatim>\<open>_init_check\<close> initializes it
  without raising) and the user has a stored presence, the caller's dictionary is
  afterwards the given one without the key \<^verbatim>\<open>'nick'\<close>, whether the call then
  returns or raises.
\<close>

theorem pres_update_pops_nick:
  assumes "fst (init_check E g) = Return ()"
    and "uid \<in> fst ` set (presences (lst (snd (init_check E g))))"
  shows "fst (snd (pres_update E g uid pp)) = AList.delete ''nick'' pp
         \<and> ''nick'' \<notin> fst ` set (fst (snd (pres_update E g uid pp)))"
proof -
  obtain g1 where ic: "init_check E g = (Return (), g1)"
    using assms(1) by (cases "init_check E g") auto
  with assms(2) obtain old where old: "dict_get (presences (lst g1)) uid = Return old"
    using key_has_entry [of uid "presences (lst g1)"] by auto
  have "fst (snd (pres_update E g uid pp)) = AList.delete ''nick'' pp"
    by (simp add: pres_update_def ic old Let_def split: prod.splits)
  moreover have "''nick'' \<notin> fst ` set (AList.delete ''nick'' pp)"
    by (auto simp: AList.delete_eq)
  ultimately show ?thesis by simp
qed



text \<open>The amended theorem at alice and a partial presence that holds only a nickname.\<close>

theorem pres_update_pops_nick_witness:
  "fst (init_check ex_env ex_gml) = Return ()
   \<and> 10 \<in> fst ` set (presences (lst (snd (init_check ex_env ex_gml))))
   \<and> fst (snd (pres_update ex_env ex_gml 10 [(''nick'', PStr ''zed'')])) = []
   \<and> ''nick'' \<notin> fst ` set (fst (snd (pres_update ex_env ex_gml 10 [(''nick'', PStr ''zed'')])))"
proof -
  have h1: "fst (init_check ex_env ex_gml) = Return ()" by code_simp
  have h2: "10 \<in> fst ` set (presences (lst (snd (init_check ex_env ex_gml))))" by code_simp
  have e: "AList.delete ''nick'' [(''nick'', PStr ''zed'')] = []" by code_simp
  note T = pres_update_pops_nick [OF h1 h2, of "[(''nick'', PStr ''zed'')]"]
  from T have "fst (snd (pres_update ex_env ex_gml 10 [(''nick'', PStr ''zed'')]))
      = AList.delete ''nick'' [(''nick'', PStr ''zed'')]"
    by (rule conjunct1)
  then have c1: "fst (snd (pres_update ex_env ex_gml 10 [(''nick'', PStr ''zed'')])) = []"
    using e by (rule trans)
  from T have c2: "''nick'' \<notin> fst ` set (fst (snd (pres_update ex_env ex_gml 10 [(''nick'', PStr ''zed'')])))"
    by (rule conjunct2)
  from h1 h2 c1 c2 show ?thesis by (intro conjI)
qed


end
